theory Spec2Isabelle
  imports Complex_Main
begin

section \<open>PriceHawk: the Avito ingestion endpoint\<close>

text \<open>
  A shallow embedding of \<^verbatim>\<open>backend/apps/tracking/views.py\<close> (\<^verbatim>\<open>_valid_signature\<close>,
  \<^verbatim>\<open>ingest_avito\<close>) over the tables that \<^verbatim>\<open>backend/apps/tracking/models.py\<close> declares
  (\<^verbatim>\<open>Ad\<close>, \<^verbatim>\<open>PricePoint\<close>, and the primary keys of \<^verbatim>\<open>ParseTarget\<close>).

  What the view does itself is modelled as written: the signature gate, the parse, every
  \<^verbatim>\<open>dict.get\<close> with its default, Python's truth test, the loop over the items, the counters,
  the transaction around the loop. Every exception the view can raise is a value of
  \<open>failure\<close>. What the view calls in libraries is modelled as follows.
  \<^item> \<^verbatim>\<open>hmac.new(...).digest()\<close>, \<^verbatim>\<open>json.loads(raw.decode("utf-8"))\<close> and the conversion of
    a non-null Python value to a column's type (\<^verbatim>\<open>Field.get_prep_value\<close> and the database's
    own type check) are parameters, the fields of the record \<open>lib\<close>: the theorems hold for
    every such library.
  \<^item> \<^verbatim>\<open>hmac.compare_digest\<close> on two \<^verbatim>\<open>str\<close> raises \<^verbatim>\<open>TypeError\<close> unless both are ASCII.
  \<^item> \<^verbatim>\<open>QuerySet.update_or_create\<close> and \<^verbatim>\<open>QuerySet.get_or_create\<close> are Django's: a lookup
    by the keyword arguments, \<^verbatim>\<open>MultipleObjectsReturned\<close> when several rows match, an insert
    when none does, and for \<^verbatim>\<open>update_or_create\<close> a save of the defaults when one does.
  \<^item> The database enforces what \<^verbatim>\<open>models.py\<close> declares: \<^verbatim>\<open>NOT NULL\<close> on every column without
    \<^verbatim>\<open>null=True\<close>, the foreign key \<^verbatim>\<open>Ad.target\<close>, and the unique constraint
    \<^verbatim>\<open>price_point_ad_dt_price_uniq\<close>; a violation raises \<^verbatim>\<open>IntegrityError\<close>.
  \<^item> \<^verbatim>\<open>timezone.now()\<close> is an input: one reading, as ISO-8601 text, for the whole request.
  One request runs alone: concurrent requests are not modelled.
\<close>

subsection \<open>Values\<close>

text \<open>
  The values \<^verbatim>\<open>json.loads\<close> returns. A \<^verbatim>\<open>dict\<close> is an association list read with \<open>map_of\<close>
  (the first binding of a key is the dict's). Python text is a \<open>string\<close>; bytes are a
  \<open>string\<close> too, one \<open>char\<close> a byte, and so is a header value (which the server decodes
  as Latin-1, a byte a character). The floats \<^verbatim>\<open>NaN\<close> and \<^verbatim>\<open>Infinity\<close> are left out.
\<close>

datatype json =
    JNull
  | JBool bool
  | JInt int
  | JFloat rat
  | JStr string
  | JArr "json list"
  | JObj "(string \<times> json) list"

type_synonym bytes = string

text \<open>A cell of a table: the value of a column in a row, \<open>JNull\<close> for SQL \<^verbatim>\<open>NULL\<close>.\<close>

type_synonym cell = json

datatype failure =
    AttributeError
  | TypeError
  | UnicodeDecodeError
  | ValueRejected
  | IntegrityError
  | MultipleObjectsReturned

text \<open>Python's truth test, as \<^verbatim>\<open>not x\<close> and \<^verbatim>\<open>x or y\<close> apply it.\<close>

fun truthy :: "json \<Rightarrow> bool" where
  "truthy JNull = False"
| "truthy (JBool b) = b"
| "truthy (JInt n) = (n \<noteq> 0)"
| "truthy (JFloat x) = (x \<noteq> 0)"
| "truthy (JStr s) = (s \<noteq> [])"
| "truthy (JArr xs) = (xs \<noteq> [])"
| "truthy (JObj kvs) = (kvs \<noteq> [])"

text \<open>\<^verbatim>\<open>d.get(k, default)\<close> on a dict.\<close>

definition dict_get :: "(string \<times> json) list \<Rightarrow> string \<Rightarrow> json \<Rightarrow> json" where
  "dict_get d k dflt = (case map_of d k of None \<Rightarrow> dflt | Some v \<Rightarrow> v)"

text \<open>
  \<^verbatim>\<open>for item in items\<close>: a list gives its elements, a string its characters, a dict its
  keys; \<^verbatim>\<open>None\<close>, a bool and a number are not iterable.
\<close>

fun iterate :: "json \<Rightarrow> failure + json list" where
  "iterate (JArr xs) = Inr xs"
| "iterate (JStr s) = Inr (map (\<lambda>c. JStr [c]) s)"
| "iterate (JObj kvs) = Inr (map (\<lambda>k. JStr k) (remdups (map fst kvs)))"
| "iterate _ = Inl TypeError"

subsection \<open>The libraries\<close>

datatype column =
    Source | ExternalId | Target | Title | Url | SellerName | SellerId | Location
  | Currency | PriceCurrent | PostedAt | IsActive
  | PointPrice | PointCurrency | PointCollectedAt

datatype loaded = NotUtf8 | NotJson | Loaded json

text \<open>
  \<open>hmac_sha256 secret msg\<close> is the MAC of \<^verbatim>\<open>hmac.new(key=secret.encode("utf-8"), msg=msg,
  digestmod=sha256)\<close>, as bytes. \<open>json_loads raw\<close> is \<^verbatim>\<open>json.loads(raw.decode("utf-8"))\<close>:
  \<open>NotUtf8\<close> when the decoding raises \<^verbatim>\<open>UnicodeDecodeError\<close>, \<open>NotJson\<close> when the parser
  raises \<^verbatim>\<open>JSONDecodeError\<close>. \<open>adapt col v\<close> is the cell that the column \<open>col\<close> holds for
  the non-null value \<open>v\<close>, in a lookup and in a write alike, \<open>None\<close> when the field or the
  database rejects \<open>v\<close>.
\<close>

record lib =
  hmac_sha256 :: "string \<Rightarrow> bytes \<Rightarrow> bytes"
  json_loads :: "bytes \<Rightarrow> loaded"
  adapt :: "column \<Rightarrow> json \<Rightarrow> cell option"

text \<open>\<^verbatim>\<open>Field.get_prep_value\<close>: \<^verbatim>\<open>None\<close> is passed on as \<^verbatim>\<open>NULL\<close> by every field type used.\<close>

definition prep :: "lib \<Rightarrow> column \<Rightarrow> json \<Rightarrow> failure + cell" where
  "prep L col v =
     (if v = JNull then Inr JNull
      else case adapt L col v of None \<Rightarrow> Inl ValueRejected | Some c \<Rightarrow> Inr c)"

fun prep_all :: "lib \<Rightarrow> (column \<times> json) list \<Rightarrow> failure + (column \<times> cell) list" where
  "prep_all L [] = Inr []"
| "prep_all L ((col, v) # kvs) =
     (case prep L col v of
        Inl f \<Rightarrow> Inl f
      | Inr c \<Rightarrow> (case prep_all L kvs of Inl f \<Rightarrow> Inl f | Inr cs \<Rightarrow> Inr ((col, c) # cs)))"

text \<open>\<^verbatim>\<open>HMAC.hexdigest()\<close>: two lower-case hexadecimal digits a byte.\<close>

definition hex_digit :: "nat \<Rightarrow> char" where
  "hex_digit d = (if d < 10 then char_of (48 + d) else char_of (87 + d))"

definition hexdigest :: "bytes \<Rightarrow> string" where
  "hexdigest bs =
     concat (map (\<lambda>b. [hex_digit (of_char b div 16), hex_digit (of_char b mod 16)]) bs)"

definition is_ascii :: "string \<Rightarrow> bool" where
  "is_ascii s = list_all (\<lambda>c. (of_char c :: nat) < 128) s"

text \<open>\<^verbatim>\<open>hmac.compare_digest(a, b)\<close> on two \<^verbatim>\<open>str\<close>.\<close>

definition compare_digest :: "string \<Rightarrow> string \<Rightarrow> failure + bool" where
  "compare_digest a b = (if is_ascii a \<and> is_ascii b then Inr (a = b) else Inl TypeError)"

subsection \<open>The tables of models.py\<close>

record ad =
  ad_id :: nat
  source :: cell
  external_id :: cell
  target_id :: cell
  title :: cell
  url :: cell
  seller_name :: cell
  seller_id :: cell
  location :: cell
  currency :: cell
  price_current :: cell
  posted_at :: cell
  is_active :: cell
  last_seen_at :: string
  created_at :: string

record price_point =
  point_id :: nat
  point_ad_id :: nat
  price :: cell
  point_currency :: cell
  collected_at :: cell

record db =
  ads :: "ad list"
  points :: "price_point list"
  parse_targets :: "cell list"

text \<open>A primary key that no row of the table has.\<close>

definition fresh_id :: "nat list \<Rightarrow> nat" where
  "fresh_id ids = Suc (fold max ids 0)"

text \<open>Assigning a value to the attribute of a column (\<^verbatim>\<open>setattr(obj, k, v)\<close>).\<close>

fun set_field :: "column \<times> cell \<Rightarrow> ad \<Rightarrow> ad" where
  "set_field (Source, c) a = a\<lparr>source := c\<rparr>"
| "set_field (ExternalId, c) a = a\<lparr>external_id := c\<rparr>"
| "set_field (Target, c) a = a\<lparr>target_id := c\<rparr>"
| "set_field (Title, c) a = a\<lparr>title := c\<rparr>"
| "set_field (Url, c) a = a\<lparr>url := c\<rparr>"
| "set_field (SellerName, c) a = a\<lparr>seller_name := c\<rparr>"
| "set_field (SellerId, c) a = a\<lparr>seller_id := c\<rparr>"
| "set_field (Location, c) a = a\<lparr>location := c\<rparr>"
| "set_field (Currency, c) a = a\<lparr>currency := c\<rparr>"
| "set_field (PriceCurrent, c) a = a\<lparr>price_current := c\<rparr>"
| "set_field (PostedAt, c) a = a\<lparr>posted_at := c\<rparr>"
| "set_field (IsActive, c) a = a\<lparr>is_active := c\<rparr>"
| "set_field (_, c) a = a"

definition assign :: "(column \<times> cell) list \<Rightarrow> ad \<Rightarrow> ad" where
  "assign cs a = fold set_field cs a"

text \<open>
  The constraints of the table \<^verbatim>\<open>Ad\<close>. The columns declared without \<^verbatim>\<open>null=True\<close> are
  \<^verbatim>\<open>NOT NULL\<close>, and \<^verbatim>\<open>target\<close> is a foreign key to \<^verbatim>\<open>ParseTarget\<close>. An \<^verbatim>\<open>UPDATE\<close> of the
  defaults writes the columns of \<open>ad_defaults_ok\<close>; an \<^verbatim>\<open>INSERT\<close> writes the whole row.
\<close>

definition ad_defaults_ok :: "db \<Rightarrow> ad \<Rightarrow> bool" where
  "ad_defaults_ok d a =
     (title a \<noteq> JNull \<and> url a \<noteq> JNull \<and> seller_name a \<noteq> JNull \<and> seller_id a \<noteq> JNull \<and>
      location a \<noteq> JNull \<and> currency a \<noteq> JNull \<and> is_active a \<noteq> JNull \<and>
      (target_id a = JNull \<or> target_id a \<in> set (parse_targets d)))"

definition ad_row_ok :: "db \<Rightarrow> ad \<Rightarrow> bool" where
  "ad_row_ok d a = (source a \<noteq> JNull \<and> external_id a \<noteq> JNull \<and> ad_defaults_ok d a)"

text \<open>
  The constraints of the table \<^verbatim>\<open>PricePoint\<close> on an inserted row: every column is
  \<^verbatim>\<open>NOT NULL\<close>, \<^verbatim>\<open>ad\<close> is a foreign key to \<^verbatim>\<open>Ad\<close>, and \<^verbatim>\<open>price_point_ad_dt_price_uniq\<close>
  makes \<^verbatim>\<open>(ad, collected_at, price)\<close> unique.
\<close>

definition same_observation :: "price_point \<Rightarrow> price_point \<Rightarrow> bool" where
  "same_observation r r' =
     (point_ad_id r' = point_ad_id r \<and> collected_at r' = collected_at r \<and> price r' = price r)"

definition point_row_ok :: "db \<Rightarrow> price_point \<Rightarrow> bool" where
  "point_row_ok d r =
     (price r \<noteq> JNull \<and> point_currency r \<noteq> JNull \<and> collected_at r \<noteq> JNull \<and>
      point_ad_id r \<in> set (map ad_id (ads d)) \<and>
      \<not> list_ex (same_observation r) (points d))"

subsection \<open>The two queries of the view\<close>

definition and_then :: "failure + 'a \<Rightarrow> ('a \<Rightarrow> failure + 'b) \<Rightarrow> failure + 'b" where
  "and_then m f = (case m of Inl e \<Rightarrow> Inl e | Inr x \<Rightarrow> f x)"

text \<open>
  The instance \<^verbatim>\<open>Ad(**params)\<close> before the parameters are assigned: the defaults of the
  fields, the primary key the insert will give, and \<^verbatim>\<open>auto_now\<close>, \<^verbatim>\<open>auto_now_add\<close>.
\<close>

definition blank_ad :: "nat \<Rightarrow> string \<Rightarrow> ad" where
  "blank_ad i now =
     \<lparr>ad_id = i, source = JStr [], external_id = JStr [], target_id = JNull, title = JStr [],
      url = JStr [], seller_name = JStr [], seller_id = JStr [], location = JStr [],
      currency = JStr ''RUB'', price_current = JNull, posted_at = JNull,
      is_active = JBool True, last_seen_at = now, created_at = now\<rparr>"

definition lookup_ad :: "cell \<Rightarrow> cell \<Rightarrow> db \<Rightarrow> ad list" where
  "lookup_ad s e d = filter (\<lambda>a. source a = s \<and> external_id a = e) (ads d)"

text \<open>
  \<^verbatim>\<open>Ad.objects.update_or_create(source=src, external_id=ext, defaults=defaults)\<close>.
  No row matches: the row of the lookup and the defaults is inserted
  (\<^verbatim>\<open>ad_source_external_id_uniq\<close> cannot be violated, the lookup having found no row with
  the pair). One row matches: the defaults are assigned to it and saved, \<^verbatim>\<open>auto_now\<close>
  refreshing \<^verbatim>\<open>last_seen_at\<close>; the \<^verbatim>\<open>UPDATE\<close> is by primary key.
\<close>

definition update_or_create ::
  "lib \<Rightarrow> string \<Rightarrow> json \<Rightarrow> json \<Rightarrow> (column \<times> json) list \<Rightarrow> db \<Rightarrow> failure + ((ad \<times> bool) \<times> db)" where
  "update_or_create L now src ext defaults d =
     and_then (prep L Source src) (\<lambda>s.
     and_then (prep L ExternalId ext) (\<lambda>e.
       case lookup_ad s e d of
         [] \<Rightarrow>
           and_then (prep_all L defaults) (\<lambda>cs.
             let a = assign ((Source, s) # (ExternalId, e) # cs)
                       (blank_ad (fresh_id (map ad_id (ads d))) now)
             in if ad_row_ok d a then Inr ((a, True), d\<lparr>ads := ads d @ [a]\<rparr>)
                else Inl IntegrityError)
       | [a0] \<Rightarrow>
           and_then (prep_all L defaults) (\<lambda>cs.
             let a = (assign cs a0)\<lparr>last_seen_at := now\<rparr>
             in if ad_defaults_ok d a
                then Inr ((a, False),
                          d\<lparr>ads := map (\<lambda>r. if ad_id r = ad_id a0 then a else r) (ads d)\<rparr>)
                else Inl IntegrityError)
       | _ \<Rightarrow> Inl MultipleObjectsReturned))"

definition lookup_point :: "nat \<Rightarrow> cell \<Rightarrow> cell \<Rightarrow> cell \<Rightarrow> db \<Rightarrow> price_point list" where
  "lookup_point i p c t d =
     filter (\<lambda>r. point_ad_id r = i \<and> price r = p \<and> point_currency r = c \<and> collected_at r = t)
       (points d)"

text \<open>
  \<^verbatim>\<open>PricePoint.objects.get_or_create(ad=a, price=p, currency=c, collected_at=t)\<close>: the
  lookup is by all four keyword arguments. When no row matches and the insert violates a
  constraint, Django looks up once more, finds nothing again, and raises the
  \<^verbatim>\<open>IntegrityError\<close>.
\<close>

definition get_or_create ::
  "lib \<Rightarrow> ad \<Rightarrow> json \<Rightarrow> json \<Rightarrow> json \<Rightarrow> db \<Rightarrow> failure + ((price_point \<times> bool) \<times> db)" where
  "get_or_create L a price_v currency_v collected_v d =
     and_then (prep L PointPrice price_v) (\<lambda>p.
     and_then (prep L PointCurrency currency_v) (\<lambda>c.
     and_then (prep L PointCollectedAt collected_v) (\<lambda>t.
       case lookup_point (ad_id a) p c t d of
         [] \<Rightarrow>
           let r = \<lparr>point_id = fresh_id (map point_id (points d)), point_ad_id = ad_id a,
                    price = p, point_currency = c, collected_at = t\<rparr>
           in if point_row_ok d r then Inr ((r, True), d\<lparr>points := points d @ [r]\<rparr>)
              else Inl IntegrityError
       | [r] \<Rightarrow> Inr ((r, False), d)
       | _ \<Rightarrow> Inl MultipleObjectsReturned)))"

subsection \<open>The view\<close>

record counts =
  created :: nat
  updated :: nat
  price_points :: nat

text \<open>The dict \<^verbatim>\<open>defaults\<close> of lines 103 to 114.\<close>

definition defaults_of :: "(string \<times> json) list \<Rightarrow> json \<Rightarrow> (column \<times> json) list" where
  "defaults_of item target =
     [(Title, dict_get item ''title'' (JStr [])),
      (Url, dict_get item ''url'' (JStr [])),
      (SellerName, dict_get item ''seller_name'' (JStr [])),
      (SellerId, dict_get item ''seller_id'' (JStr [])),
      (Location, dict_get item ''location'' (JStr [])),
      (Currency, dict_get item ''currency'' (JStr ''RUB'')),
      (PriceCurrent, dict_get item ''price'' JNull),
      (PostedAt, dict_get item ''posted_at'' JNull),
      (IsActive, dict_get item ''is_active'' (JBool True)),
      (Target, target)]"

text \<open>
  The body of the loop, lines 100 to 128, on the database and the counters reached so
  far. An item that is not a dict has no \<^verbatim>\<open>get\<close>.
\<close>

definition ingest_item ::
  "lib \<Rightarrow> string \<Rightarrow> json \<Rightarrow> json \<Rightarrow> json \<Rightarrow> json \<Rightarrow> db \<times> counts \<Rightarrow> failure + (db \<times> counts)" where
  "ingest_item L now src target fetched_at item st =
     (case item of
        JObj kvs \<Rightarrow>
          (let ext_id = dict_get kvs ''external_id'' JNull in
           if \<not> truthy ext_id then Inr st
           else
             and_then (update_or_create L now src ext_id (defaults_of kvs target) (fst st))
               (\<lambda>((a, is_created), d1).
                  let c1 = (snd st)\<lparr>created := created (snd st) + (if is_created then 1 else 0),
                                    updated := updated (snd st) + (if is_created then 0 else 1)\<rparr>
                  in if dict_get kvs ''price'' JNull \<noteq> JNull
                     then and_then
                            (get_or_create L a (dict_get kvs ''price'' JNull)
                               (dict_get kvs ''currency'' (JStr ''RUB'')) fetched_at d1)
                            (\<lambda>(_, d2). Inr (d2, c1\<lparr>price_points := price_points c1 + 1\<rparr>))
                     else Inr (d1, c1)))
      | _ \<Rightarrow> Inl AttributeError)"

text \<open>
  The loop. It stops at the first exception, with the database as the items before have
  left it inside the open transaction.
\<close>

fun ingest_items ::
  "lib \<Rightarrow> string \<Rightarrow> json \<Rightarrow> json \<Rightarrow> json \<Rightarrow> json list \<Rightarrow> db \<times> counts \<Rightarrow> failure option \<times> (db \<times> counts)" where
  "ingest_items L now src target fetched_at [] st = (None, st)"
| "ingest_items L now src target fetched_at (item # items) st =
     (case ingest_item L now src target fetched_at item st of
        Inl f \<Rightarrow> (Some f, st)
      | Inr st' \<Rightarrow> ingest_items L now src target fetched_at items st')"

text \<open>
  \<^verbatim>\<open>with transaction.atomic()\<close>: the block's effects are committed when it ends, and rolled
  back to the database at its entry when an exception leaves it.
\<close>

definition atomic :: "(db \<Rightarrow> failure option \<times> (db \<times> 'a)) \<Rightarrow> db \<Rightarrow> (failure + 'a) \<times> db" where
  "atomic block d =
     (case block d of
        (Some f, _) \<Rightarrow> (Inl f, d)
      | (None, (d', x)) \<Rightarrow> (Inr x, d'))"

datatype response = Response (status: nat) (data: "(string \<times> json) list")

definition invalid_signature :: response where
  "invalid_signature = Response 401 [(''detail'', JStr ''Invalid signature'')]"

definition invalid_json :: response where
  "invalid_json = Response 400 [(''detail'', JStr ''Invalid JSON'')]"

definition accepted :: "counts \<Rightarrow> response" where
  "accepted c =
     Response 202
       [(''status'', JStr ''accepted''),
        (''created'', JInt (int (created c))),
        (''updated'', JInt (int (updated c))),
        (''price_points'', JInt (int (price_points c)))]"

definition valid_signature :: "lib \<Rightarrow> bytes \<Rightarrow> string \<Rightarrow> string \<Rightarrow> failure + bool" where
  "valid_signature L raw_body signature secret =
     (if signature = [] then Inr False
      else compare_digest (hexdigest (hmac_sha256 L secret raw_body)) signature)"

record request =
  x_signature :: "string option"
  body :: bytes

text \<open>
  Lines 92 to 138 on the parsed payload: \<open>Inl\<close> is the exception that leaves the view
  (the server then answers 500), \<open>Inr\<close> the response.
\<close>

definition zero_counts :: counts where
  "zero_counts = \<lparr>created = 0, updated = 0, price_points = 0\<rparr>"

definition process_payload :: "lib \<Rightarrow> string \<Rightarrow> json \<Rightarrow> db \<Rightarrow> (failure + response) \<times> db" where
  "process_payload L now payload d =
     (case payload of
        JObj p \<Rightarrow>
          (let items = dict_get p ''items'' (JArr []);
               src = dict_get p ''source'' (JStr ''avito'');
               target = dict_get p ''target_id'' JNull;
               fetched_at = (if truthy (dict_get p ''fetched_at'' JNull)
                             then dict_get p ''fetched_at'' JNull else JStr now)
           in case atomic
                     (\<lambda>d0. case iterate items of
                              Inl f \<Rightarrow> (Some f, (d0, zero_counts))
                            | Inr xs \<Rightarrow> ingest_items L now src target fetched_at xs (d0, zero_counts))
                     d of
                (Inl f, d') \<Rightarrow> (Inl f, d')
              | (Inr c, d') \<Rightarrow> (Inr (accepted c), d'))
      | _ \<Rightarrow> (Inl AttributeError, d))"

text \<open>
  The view. \<open>secret\<close> is \<^verbatim>\<open>getattr(settings, "INGEST_HMAC_SECRET", None)\<close>, \<open>now\<close> the
  reading of the clock, \<open>d\<close> the database before the request; the result is the response
  or the exception, and the database after the request.
\<close>

definition ingest_avito ::
  "lib \<Rightarrow> string option \<Rightarrow> request \<Rightarrow> string \<Rightarrow> db \<Rightarrow> (failure + response) \<times> db" where
  "ingest_avito L secret request now d =
     (let signature = (case x_signature request of None \<Rightarrow> [] | Some s \<Rightarrow> s);
          raw = body request
      in case secret of
           None \<Rightarrow> (Inr invalid_signature, d)
         | Some sec \<Rightarrow>
             if sec = [] then (Inr invalid_signature, d)
             else
               (case valid_signature L raw signature sec of
                  Inl f \<Rightarrow> (Inl f, d)
                | Inr False \<Rightarrow> (Inr invalid_signature, d)
                | Inr True \<Rightarrow>
                    (case json_loads L raw of
                       NotUtf8 \<Rightarrow> (Inl UnicodeDecodeError, d)
                     | NotJson \<Rightarrow> (Inr invalid_json, d)
                     | Loaded payload \<Rightarrow> process_payload L now payload d)))"

subsection \<open>Notions used in the statements\<close>

text \<open>
  What the loop reads of an item: its \<^verbatim>\<open>external_id\<close>, whether the item passes the test
  of line 101 and is processed, and whether it has a price (line 121).
\<close>

definition item_external_id :: "json \<Rightarrow> json" where
  "item_external_id item =
     (case item of JObj kvs \<Rightarrow> dict_get kvs ''external_id'' JNull | _ \<Rightarrow> JNull)"

definition processed :: "json \<Rightarrow> bool" where
  "processed item = truthy (item_external_id item)"

definition priced :: "json \<Rightarrow> bool" where
  "priced item =
     (case item of JObj kvs \<Rightarrow> dict_get kvs ''price'' JNull \<noteq> JNull | _ \<Rightarrow> False)"

subsection \<open>Notions used in the proofs and statements\<close>

text \<open>
  The counters after a processed item: lines 118, 119 and 128.
\<close>

definition tally :: "counts \<Rightarrow> bool \<Rightarrow> bool \<Rightarrow> counts" where
  "tally c is_created has_price =
     c\<lparr>created := created c + (if is_created then 1 else 0),
       updated := updated c + (if is_created then 0 else 1),
       price_points := price_points c + (if has_price then 1 else 0)\<rparr>"

text \<open>
  The identity of the rows of \<^verbatim>\<open>Ad\<close>: primary key, source and external id, in table order.
\<close>

definition idents :: "db \<Rightarrow> (nat \<times> cell \<times> cell) list" where
  "idents d = map (\<lambda>r. (ad_id r, source r, external_id r)) (ads d)"

text \<open>
  The primary keys of the rows with a given source and external id.
\<close>

definition key_ids :: "cell \<Rightarrow> cell \<Rightarrow> db \<Rightarrow> nat list" where
  "key_ids s e d = map fst (filter (\<lambda>(i, s', e'). s' = s \<and> e' = e) (idents d))"

text \<open>
  What lines 92 to 95 read of the payload.
\<close>

definition batch_items :: "(string \<times> json) list \<Rightarrow> json" where
  "batch_items p = dict_get p ''items'' (JArr [])"

definition batch_source :: "(string \<times> json) list \<Rightarrow> json" where
  "batch_source p = dict_get p ''source'' (JStr ''avito'')"

definition batch_target :: "(string \<times> json) list \<Rightarrow> json" where
  "batch_target p = dict_get p ''target_id'' JNull"

definition batch_fetched_at :: "(string \<times> json) list \<Rightarrow> string \<Rightarrow> json" where
  "batch_fetched_at p now =
     (if truthy (dict_get p ''fetched_at'' JNull) then dict_get p ''fetched_at'' JNull
      else JStr now)"

text \<open>
  \<^verbatim>\<open>request.headers.get("X-Signature", "")\<close>.
\<close>

definition header :: "request \<Rightarrow> string" where
  "header request = (case x_signature request of None \<Rightarrow> [] | Some s \<Rightarrow> s)"

text \<open>
  A correctly signed request: the secret is configured, and the signature header is the
  non-empty hexadecimal HMAC of the raw body under the secret.
\<close>

definition authentic :: "lib \<Rightarrow> string option \<Rightarrow> request \<Rightarrow> bool" where
  "authentic L secret request =
     (case secret of
        None \<Rightarrow> False
      | Some sec \<Rightarrow>
          sec \<noteq> [] \<and> header request \<noteq> [] \<and>
          header request = hexdigest (hmac_sha256 L sec (body request)))"

text \<open>
  The primary key of \<^verbatim>\<open>Ad\<close> is unique, as the database keeps it.
\<close>

definition ad_pk_unique :: "db \<Rightarrow> bool" where
  "ad_pk_unique d = distinct (map ad_id (ads d))"

subsection \<open>Example requests and databases\<close>

text \<open>
  A library for the examples: the MAC of a message is the secret followed by the message
  (a stand-in for HMAC-SHA256; no theorem depends on it), the parser knows the bodies
  below and what \<^verbatim>\<open>json.loads\<close> returns for them, and every column takes a value as it
  is. The first body is the end-to-end example of the specification.
\<close>

definition body_chair :: bytes where
  \<open>body_chair = ''{"items":[{"external_id":"123","title":"Chair","price":500,"currency":"RUB"}],"target_id":7,"fetched_at":"2024-01-01T00:00:00Z"}''\<close>

definition item_chair :: "(string \<times> json) list" where
  "item_chair = [(''external_id'', JStr ''123''), (''title'', JStr ''Chair''),
                 (''price'', JInt 500), (''currency'', JStr ''RUB'')]"

definition payload_chair :: "(string \<times> json) list" where
  "payload_chair =
     [(''items'', JArr [JObj item_chair]),
      (''target_id'', JInt 7),
      (''fetched_at'', JStr ''2024-01-01T00:00:00Z'')]"

definition body_list :: bytes where
  "body_list = ''[]''"

definition body_partial :: bytes where
  \<open>body_partial = ''{"items":[{"external_id":"1","title":"Desk"},{"external_id":"2","title":null}]}''\<close>

definition payload_partial :: "(string \<times> json) list" where
  "payload_partial =
     [(''items'', JArr [JObj [(''external_id'', JStr ''1''), (''title'', JStr ''Desk'')],
                        JObj [(''external_id'', JStr ''2''), (''title'', JNull)]])]"

definition body_mixed :: bytes where
  \<open>body_mixed = ''{"items":[{"title":"Lamp"},{"external_id":"123","price":500},{"external_id":"123"}],"fetched_at":"2024-01-01T00:00:00Z"}''\<close>

definition payload_mixed :: "(string \<times> json) list" where
  "payload_mixed =
     [(''items'', JArr [JObj [(''title'', JStr ''Lamp'')],
                        JObj [(''external_id'', JStr ''123''), (''price'', JInt 500)],
                        JObj [(''external_id'', JStr ''123'')]]),
      (''fetched_at'', JStr ''2024-01-01T00:00:00Z'')]"


definition body_null_currency :: bytes where
  \<open>body_null_currency = ''{"items":[{"external_id":"123","title":"Chair","currency":null}]}''\<close>

definition item_null_currency :: "(string \<times> json) list" where
  "item_null_currency =
     [(''external_id'', JStr ''123''), (''title'', JStr ''Chair''), (''currency'', JNull)]"

definition payload_null_currency :: "(string \<times> json) list" where
  "payload_null_currency = [(''items'', JArr [JObj item_null_currency])]"

definition body_chair_usd :: bytes where
  \<open>body_chair_usd = ''{"items":[{"external_id":"123","title":"Chair","price":500,"currency":"USD"}],"target_id":7,"fetched_at":"2024-01-01T00:00:00Z"}''\<close>

definition item_chair_usd :: "(string \<times> json) list" where
  "item_chair_usd = [(''external_id'', JStr ''123''), (''title'', JStr ''Chair''),
                     (''price'', JInt 500), (''currency'', JStr ''USD'')]"

definition payload_chair_usd :: "(string \<times> json) list" where
  "payload_chair_usd =
     [(''items'', JArr [JObj item_chair_usd]),
      (''target_id'', JInt 7),
      (''fetched_at'', JStr ''2024-01-01T00:00:00Z'')]"

definition example_loads :: "bytes \<Rightarrow> loaded" where
  "example_loads raw =
     (if raw = body_chair then Loaded (JObj payload_chair)
      else if raw = body_list then Loaded (JArr [])
      else if raw = body_partial then Loaded (JObj payload_partial)
      else if raw = body_mixed then Loaded (JObj payload_mixed)
      else if raw = body_null_currency then Loaded (JObj payload_null_currency)
      else if raw = body_chair_usd then Loaded (JObj payload_chair_usd)
      else NotJson)"

definition example_lib :: lib where
  "example_lib =
     \<lparr>hmac_sha256 = (\<lambda>secret msg. secret @ msg),
      json_loads = example_loads,
      adapt = (\<lambda>col v. Some v)\<rparr>"

definition signed :: "bytes \<Rightarrow> request" where
  "signed raw = \<lparr>x_signature = Some (hexdigest (hmac_sha256 example_lib ''s3cret'' raw)), body = raw\<rparr>"

definition db0 :: db where
  "db0 = \<lparr>ads = [], points = [], parse_targets = [JInt 7]\<rparr>"

definition ad_chair :: "string \<Rightarrow> ad" where
  "ad_chair seen =
     \<lparr>ad_id = 1, source = JStr ''avito'', external_id = JStr ''123'', target_id = JInt 7,
      title = JStr ''Chair'', url = JStr [], seller_name = JStr [], seller_id = JStr [],
      location = JStr [], currency = JStr ''RUB'', price_current = JInt 500, posted_at = JNull,
      is_active = JBool True, last_seen_at = seen, created_at = ''2024-01-01T00:00:05''\<rparr>"

definition point_chair :: price_point where
  "point_chair =
     \<lparr>point_id = 1, point_ad_id = 1, price = JInt 500, point_currency = JStr ''RUB'',
      collected_at = JStr ''2024-01-01T00:00:00Z''\<rparr>"

definition db1 :: db where
  "db1 = \<lparr>ads = [ad_chair ''2024-01-01T00:00:05''], points = [point_chair], parse_targets = [JInt 7]\<rparr>"

text \<open>
  The database inside the transaction after the first item of \<^verbatim>\<open>body_partial\<close>.
\<close>

definition partial_state :: db where
  "partial_state =
     db1\<lparr>ads := [ad_chair ''2024-01-01T00:00:05'',
                  \<lparr>ad_id = 2, source = JStr ''avito'', external_id = JStr ''1'', target_id = JNull,
                   title = JStr ''Desk'', url = JStr [], seller_name = JStr [],
                   seller_id = JStr [], location = JStr [], currency = JStr ''RUB'',
                   price_current = JNull, posted_at = JNull, is_active = JBool True,
                   last_seen_at = ''2024-01-01T00:09:00'',
                   created_at = ''2024-01-01T00:09:00''\<rparr>]\<rparr>"

text \<open>
  The chair as an earlier batch left it, found under another target.
\<close>

definition ad_old :: ad where
  "ad_old =
     \<lparr>ad_id = 1, source = JStr ''avito'', external_id = JStr ''123'', target_id = JInt 8,
      title = JStr ''Old chair'', url = JStr ''https://example.org/123'',
      seller_name = JStr ''Ann'', seller_id = JStr ''s1'', location = JStr ''Kazan'',
      currency = JStr ''USD'', price_current = JInt 450, posted_at = JStr ''2023-12-30T08:00:00Z'',
      is_active = JBool False, last_seen_at = ''2023-12-31T10:00:00'',
      created_at = ''2024-01-01T00:00:05''\<rparr>"

definition db_old :: db where
  "db_old = \<lparr>ads = [ad_old], points = [], parse_targets = [JInt 7, JInt 8]\<rparr>"

section \<open>Properties of the model\<close>

lemma and_then_Inl [simp]: "and_then (Inl e) f = Inl e"
  by (simp add: and_then_def)

lemma and_then_Inr [simp]: "and_then (Inr x) f = f x"
  by (simp add: and_then_def)

lemma and_then_eq_Inr: "and_then m f = Inr y \<longleftrightarrow> (\<exists>x. m = Inr x \<and> f x = Inr y)"
  by (cases m) simp_all

lemma le_fold_max: "(a::nat) \<le> fold max xs a"
proof (induction xs arbitrary: a)
  case Nil
  show ?case by simp
next
  case (Cons x xs)
  have "a \<le> max x a" by simp
  also have "\<dots> \<le> fold max xs (max x a)" by (rule Cons.IH)
  finally show ?case by simp
qed

lemma mem_le_fold_max: "x \<in> set xs \<Longrightarrow> (x::nat) \<le> fold max xs a"
proof (induction xs arbitrary: a)
  case Nil
  then show ?case by simp
next
  case (Cons y ys)
  show ?case
  proof (cases "x = y")
    case True
    have "x \<le> max y a" using True by simp
    also have "\<dots> \<le> fold max ys (max y a)" by (rule le_fold_max)
    finally show ?thesis by simp
  next
    case False
    with Cons.prems have "x \<in> set ys" by simp
    then show ?thesis using Cons.IH by simp
  qed
qed

lemma fresh_id_notin: "fresh_id ids \<notin> set ids"
proof
  assume "fresh_id ids \<in> set ids"
  then have "fresh_id ids \<le> fold max ids 0" by (rule mem_le_fold_max)
  then show False by (simp add: fresh_id_def)
qed

lemma hex_digit_ascii: "d < 16 \<Longrightarrow> (of_char (hex_digit d) :: nat) < 128"
  by (simp add: hex_digit_def)

lemma is_ascii_hexdigest: "is_ascii (hexdigest bs)"
proof (induction bs)
  case Nil
  show ?case by (simp add: is_ascii_def hexdigest_def)
next
  case (Cons b bs)
  have "(of_char b :: nat) < 256" by simp
  then have "(of_char b :: nat) div 16 < 16" by arith
  moreover have "(of_char b :: nat) mod 16 < 16" by simp
  ultimately show ?case
    using Cons by (simp add: is_ascii_def hexdigest_def hex_digit_ascii)
qed

lemma prep_all_fst: "prep_all L kvs = Inr cs \<Longrightarrow> map fst cs = map fst kvs"
proof (induction kvs arbitrary: cs)
  case Nil
  then show ?case by simp
next
  case (Cons kv kvs)
  obtain col v where kv: "kv = (col, v)" by (cases kv)
  from Cons.prems kv obtain c cs' where
    "prep L col v = Inr c" "prep_all L kvs = Inr cs'" "cs = (col, c) # cs'"
    by (auto split: sum.splits)
  with Cons.IH kv show ?case by simp
qed

lemma ad_id_set_field [simp]: "ad_id (set_field x a) = ad_id a"
  by (cases "(x, a)" rule: set_field.cases) auto

lemma created_at_set_field [simp]: "created_at (set_field x a) = created_at a"
  by (cases "(x, a)" rule: set_field.cases) auto

lemma last_seen_at_set_field [simp]: "last_seen_at (set_field x a) = last_seen_at a"
  by (cases "(x, a)" rule: set_field.cases) auto

lemma source_set_field [simp]: "Source \<noteq> fst x \<Longrightarrow> source (set_field x a) = source a"
  by (cases "(x, a)" rule: set_field.cases) auto

lemma external_id_set_field [simp]:
  "ExternalId \<noteq> fst x \<Longrightarrow> external_id (set_field x a) = external_id a"
  by (cases "(x, a)" rule: set_field.cases) auto

lemma ad_id_assign [simp]: "ad_id (assign cs a) = ad_id a"
  unfolding assign_def by (induction cs arbitrary: a) simp_all

lemma created_at_assign [simp]: "created_at (assign cs a) = created_at a"
  unfolding assign_def by (induction cs arbitrary: a) simp_all

lemma last_seen_at_assign [simp]: "last_seen_at (assign cs a) = last_seen_at a"
  unfolding assign_def by (induction cs arbitrary: a) simp_all

lemma source_assign: "Source \<notin> fst ` set cs \<Longrightarrow> source (assign cs a) = source a"
  unfolding assign_def by (induction cs arbitrary: a) simp_all

lemma external_id_assign:
  "ExternalId \<notin> fst ` set cs \<Longrightarrow> external_id (assign cs a) = external_id a"
  unfolding assign_def by (induction cs arbitrary: a) simp_all

lemma update_or_create_Inr:
  assumes "update_or_create L now src ext dfl d = Inr ((a, c), d')"
  obtains
    (inserted) s e cs where
      "prep L Source src = Inr s" "prep L ExternalId ext = Inr e" "prep_all L dfl = Inr cs"
      "lookup_ad s e d = []" "c"
      "a = assign ((Source, s) # (ExternalId, e) # cs) (blank_ad (fresh_id (map ad_id (ads d))) now)"
      "ad_row_ok d a" "d' = d\<lparr>ads := ads d @ [a]\<rparr>"
  | (saved) s e cs a0 where
      "prep L Source src = Inr s" "prep L ExternalId ext = Inr e" "prep_all L dfl = Inr cs"
      "lookup_ad s e d = [a0]" "\<not> c"
      "a = (assign cs a0)\<lparr>last_seen_at := now\<rparr>"
      "ad_defaults_ok d a"
      "d' = d\<lparr>ads := map (\<lambda>r. if ad_id r = ad_id a0 then a else r) (ads d)\<rparr>"
proof -
  from assms obtain s e where
    s: "prep L Source src = Inr s" and e: "prep L ExternalId ext = Inr e" and
    rest: "(case lookup_ad s e d of
         [] \<Rightarrow>
           and_then (prep_all L dfl) (\<lambda>cs.
             let a = assign ((Source, s) # (ExternalId, e) # cs)
                       (blank_ad (fresh_id (map ad_id (ads d))) now)
             in if ad_row_ok d a then Inr ((a, True), d\<lparr>ads := ads d @ [a]\<rparr>)
                else Inl IntegrityError)
       | [a0] \<Rightarrow>
           and_then (prep_all L dfl) (\<lambda>cs.
             let a = (assign cs a0)\<lparr>last_seen_at := now\<rparr>
             in if ad_defaults_ok d a
                then Inr ((a, False),
                          d\<lparr>ads := map (\<lambda>r. if ad_id r = ad_id a0 then a else r) (ads d)\<rparr>)
                else Inl IntegrityError)
       | _ \<Rightarrow> Inl MultipleObjectsReturned) = Inr ((a, c), d')"
    unfolding update_or_create_def and_then_eq_Inr by blast
  show thesis
  proof (cases "lookup_ad s e d")
    case Nil
    with rest obtain cs where cs: "prep_all L dfl = Inr cs" and
      r: "(let a = assign ((Source, s) # (ExternalId, e) # cs)
                       (blank_ad (fresh_id (map ad_id (ads d))) now)
             in if ad_row_ok d a then Inr ((a, True), d\<lparr>ads := ads d @ [a]\<rparr>)
                else Inl IntegrityError) = Inr ((a, c), d')"
      by (auto simp: and_then_eq_Inr)
    from r show thesis
      using inserted [OF s e cs Nil] by (auto simp: Let_def split: if_splits)
  next
    case (Cons a0 more)
    note outer = Cons
    show thesis
    proof (cases more)
      case Nil
      with outer have one: "lookup_ad s e d = [a0]" by simp
      with rest obtain cs where cs: "prep_all L dfl = Inr cs" and
        r: "(let a = (assign cs a0)\<lparr>last_seen_at := now\<rparr>
             in if ad_defaults_ok d a
                then Inr ((a, False),
                          d\<lparr>ads := map (\<lambda>r. if ad_id r = ad_id a0 then a else r) (ads d)\<rparr>)
                else Inl IntegrityError) = Inr ((a, c), d')"
        by (auto simp: and_then_eq_Inr)
      from r show thesis
        using saved [OF s e cs one] by (auto simp: Let_def split: if_splits)
    next
      case (Cons b bs)
      with outer rest show thesis by simp
    qed
  qed
qed

lemma get_or_create_Inr:
  assumes "get_or_create L a pv cv tv d = Inr ((r, c), d')"
  obtains
    (inserted) p cu t where
      "prep L PointPrice pv = Inr p" "prep L PointCurrency cv = Inr cu"
      "prep L PointCollectedAt tv = Inr t"
      "lookup_point (ad_id a) p cu t d = []" "c"
      "r = \<lparr>point_id = fresh_id (map point_id (points d)), point_ad_id = ad_id a,
             price = p, point_currency = cu, collected_at = t\<rparr>"
      "point_row_ok d r" "d' = d\<lparr>points := points d @ [r]\<rparr>"
  | (found) p cu t where
      "prep L PointPrice pv = Inr p" "prep L PointCurrency cv = Inr cu"
      "prep L PointCollectedAt tv = Inr t"
      "lookup_point (ad_id a) p cu t d = [r]" "\<not> c" "d' = d"
proof -
  from assms obtain p cu t where
    p: "prep L PointPrice pv = Inr p" and cu: "prep L PointCurrency cv = Inr cu" and
    t: "prep L PointCollectedAt tv = Inr t" and
    rest: "(case lookup_point (ad_id a) p cu t d of
         [] \<Rightarrow>
           let r = \<lparr>point_id = fresh_id (map point_id (points d)), point_ad_id = ad_id a,
                    price = p, point_currency = cu, collected_at = t\<rparr>
           in if point_row_ok d r then Inr ((r, True), d\<lparr>points := points d @ [r]\<rparr>)
              else Inl IntegrityError
       | [r] \<Rightarrow> Inr ((r, False), d)
       | _ \<Rightarrow> Inl MultipleObjectsReturned) = Inr ((r, c), d')"
    unfolding get_or_create_def and_then_eq_Inr by (elim exE conjE) (rule that)
  show thesis
  proof (cases "lookup_point (ad_id a) p cu t d")
    case Nil
    with rest show thesis
      using inserted [OF p cu t Nil] by (auto simp: Let_def split: if_splits)
  next
    case (Cons r0 more)
    note outer = Cons
    show thesis
    proof (cases more)
      case Nil
      with outer rest have "r0 = r" "\<not> c" "d' = d" by simp_all
      with outer Nil have "lookup_point (ad_id a) p cu t d = [r]" by simp
      then show thesis using \<open>\<not> c\<close> \<open>d' = d\<close> by (rule found [OF p cu t])
    next
      case (Cons b bs)
      with outer rest show thesis by simp
    qed
  qed
qed

lemma update_or_create_saved:
  assumes "prep L Source src = Inr s" "prep L ExternalId ext = Inr e"
    "lookup_ad s e d = [a0]" "prep_all L dfl = Inr cs"
    "ad_defaults_ok d ((assign cs a0)\<lparr>last_seen_at := now\<rparr>)"
  shows "update_or_create L now src ext dfl d =
           Inr (((assign cs a0)\<lparr>last_seen_at := now\<rparr>, False),
                d\<lparr>ads := map (\<lambda>r. if ad_id r = ad_id a0 then (assign cs a0)\<lparr>last_seen_at := now\<rparr> else r)
                            (ads d)\<rparr>)"
  using assms by (simp add: update_or_create_def Let_def)

lemma get_or_create_found:
  assumes "prep L PointPrice pv = Inr p" "prep L PointCurrency cv = Inr cu"
    "prep L PointCollectedAt tv = Inr t" "lookup_point (ad_id a) p cu t d = [r]"
  shows "get_or_create L a pv cv tv d = Inr ((r, False), d)"
  using assms by (simp add: get_or_create_def)

lemma ingest_item_Inr:
  assumes "ingest_item L now src tgt f item (d, c) = Inr (d', c')"
  obtains
    (skipped) kvs where "item = JObj kvs" "\<not> processed item" "d' = d" "c' = c"
  | (unpriced) kvs a is_created where "item = JObj kvs" "processed item" "\<not> priced item"
      "update_or_create L now src (item_external_id item) (defaults_of kvs tgt) d
         = Inr ((a, is_created), d')"
      "c' = tally c is_created False"
  | (priced) kvs a is_created d1 r b where "item = JObj kvs" "processed item" "priced item"
      "update_or_create L now src (item_external_id item) (defaults_of kvs tgt) d
         = Inr ((a, is_created), d1)"
      "get_or_create L a (dict_get kvs ''price'' JNull) (dict_get kvs ''currency'' (JStr ''RUB'')) f d1
         = Inr ((r, b), d')"
      "c' = tally c is_created True"
proof (cases item)
  case (JObj kvs)
  show thesis
  proof (cases "processed item")
    case False
    with assms JObj show thesis
      using skipped [of kvs]
      by (simp add: ingest_item_def processed_def item_external_id_def)
  next
    case True
    with assms JObj obtain a is_created d1 where
      u: "update_or_create L now src (item_external_id item) (defaults_of kvs tgt) d
            = Inr ((a, is_created), d1)" and
      rest: "(let c1 = c\<lparr>created := created c + (if is_created then 1 else 0),
                          updated := updated c + (if is_created then 0 else 1)\<rparr>
              in if dict_get kvs ''price'' JNull \<noteq> JNull
                 then and_then
                        (get_or_create L a (dict_get kvs ''price'' JNull)
                           (dict_get kvs ''currency'' (JStr ''RUB'')) f d1)
                        (\<lambda>(_, d2). Inr (d2, c1\<lparr>price_points := price_points c1 + 1\<rparr>))
                 else Inr (d1, c1)) = Inr (d', c')"
      by (auto simp: ingest_item_def processed_def item_external_id_def and_then_eq_Inr)
    show thesis
    proof (cases "priced item")
      case False
      with rest JObj have "d' = d1"
        by (simp add: priced_def Let_def)
      moreover from False rest JObj have "c' = tally c is_created False"
        by (cases c) (auto simp: priced_def tally_def Let_def)
      ultimately have "d' = d1" "c' = tally c is_created False" by simp_all
      with u show thesis using unpriced [OF JObj True False] by simp
    next
      case priced_item: True
      with rest JObj obtain r b where
        g: "get_or_create L a (dict_get kvs ''price'' JNull)
              (dict_get kvs ''currency'' (JStr ''RUB'')) f d1 = Inr ((r, b), d')" and
        c': "c' = tally c is_created True"
        by (cases c) (auto simp: priced_def tally_def Let_def and_then_eq_Inr)
      show thesis by (rule priced [OF JObj True priced_item u g c'])
    qed
  qed
qed (use assms in \<open>simp_all add: ingest_item_def\<close>)

lemma ingest_item_skip:
  "\<not> truthy (dict_get kvs ''external_id'' JNull) \<Longrightarrow>
     ingest_item L now src tgt f (JObj kvs) st = Inr st"
  by (simp add: ingest_item_def)

lemma ingest_items_append:
  "ingest_items L now src tgt f (xs @ ys) st =
     (case ingest_items L now src tgt f xs st of
        (Some e, st') \<Rightarrow> (Some e, st')
      | (None, st') \<Rightarrow> ingest_items L now src tgt f ys st')"
  by (induction xs arbitrary: st) (auto split: sum.splits)

lemma tally_simps [simp]:
  "created (tally c a b) = created c + (if a then 1 else 0)"
  "updated (tally c a b) = updated c + (if a then 0 else 1)"
  "price_points (tally c a b) = price_points c + (if b then 1 else 0)"
  by (simp_all add: tally_def)

lemma ingest_item_counts:
  assumes "ingest_item L now src tgt f item (d, c) = Inr (d', c')"
  shows "created c' + updated c' = created c + updated c + (if processed item then 1 else 0)"
    and "price_points c' = price_points c + (if processed item \<and> priced item then 1 else 0)"
  using assms by (cases rule: ingest_item_Inr; simp)+

lemma ingest_items_counts:
  assumes "ingest_items L now src tgt f xs (d, c) = (None, (d', c'))"
  shows "created c' + updated c' = created c + updated c + length (filter processed xs)
       \<and> price_points c' = price_points c + length (filter (\<lambda>it. processed it \<and> priced it) xs)"
  using assms
proof (induction xs arbitrary: d c)
  case Nil
  then show ?case by simp
next
  case (Cons x xs)
  from Cons.prems obtain d1 c1 where
    step: "ingest_item L now src tgt f x (d, c) = Inr (d1, c1)" and
    rest: "ingest_items L now src tgt f xs (d1, c1) = (None, (d', c'))"
    by (auto split: sum.splits)
  from Cons.IH [OF rest] ingest_item_counts [OF step] show ?case by simp
qed

lemma key_ids_lookup_ad: "key_ids s e d = map ad_id (lookup_ad s e d)"
  by (simp add: key_ids_def idents_def lookup_ad_def filter_map comp_def)

lemma defaults_explicit:
  assumes "prep_all L (defaults_of kvs tgt) = Inr cs"
  obtains c1 c2 c3 c4 c5 c6 c7 c8 c9 c10 where
    "cs = [(Title, c1), (Url, c2), (SellerName, c3), (SellerId, c4), (Location, c5),
           (Currency, c6), (PriceCurrent, c7), (PostedAt, c8), (IsActive, c9), (Target, c10)]"
    "prep L Title (dict_get kvs ''title'' (JStr [])) = Inr c1"
    "prep L Url (dict_get kvs ''url'' (JStr [])) = Inr c2"
    "prep L SellerName (dict_get kvs ''seller_name'' (JStr [])) = Inr c3"
    "prep L SellerId (dict_get kvs ''seller_id'' (JStr [])) = Inr c4"
    "prep L Location (dict_get kvs ''location'' (JStr [])) = Inr c5"
    "prep L Currency (dict_get kvs ''currency'' (JStr ''RUB'')) = Inr c6"
    "prep L PriceCurrent (dict_get kvs ''price'' JNull) = Inr c7"
    "prep L PostedAt (dict_get kvs ''posted_at'' JNull) = Inr c8"
    "prep L IsActive (dict_get kvs ''is_active'' (JBool True)) = Inr c9"
    "prep L Target tgt = Inr c10"
  using assms unfolding defaults_of_def prep_all.simps
  by (auto split: sum.splits)

lemma assign_defaults:
  "assign [(Title, c1), (Url, c2), (SellerName, c3), (SellerId, c4), (Location, c5),
           (Currency, c6), (PriceCurrent, c7), (PostedAt, c8), (IsActive, c9), (Target, c10)] a
   = a\<lparr>title := c1, url := c2, seller_name := c3, seller_id := c4, location := c5,
       currency := c6, price_current := c7, posted_at := c8, is_active := c9, target_id := c10\<rparr>"
  by (simp add: assign_def)

lemma ad_defaults_ok_assign:
  assumes "prep_all L (defaults_of kvs tgt) = Inr cs" "parse_targets d' = parse_targets d"
  shows "ad_defaults_ok d' ((assign cs a')\<lparr>last_seen_at := now\<rparr>) = ad_defaults_ok d (assign cs a)"
  using assms(1)
proof (cases rule: defaults_explicit)
  case 1
  then show ?thesis using assms(2) by (simp add: assign_defaults ad_defaults_ok_def)
qed

lemma defaults_of_columns:
  "Source \<notin> fst ` set (defaults_of kvs tgt)" "ExternalId \<notin> fst ` set (defaults_of kvs tgt)"
  by (simp_all add: defaults_of_def)

lemma prep_all_columns:
  "prep_all L kvs = Inr cs \<Longrightarrow> fst ` set cs = fst ` set kvs"
  using prep_all_fst [of L kvs cs] by (metis set_map)

lemma ingest_avito_authentic:
  assumes "authentic L secret req"
  shows "ingest_avito L secret req now d =
           (case json_loads L (body req) of
              NotUtf8 \<Rightarrow> (Inl UnicodeDecodeError, d)
            | NotJson \<Rightarrow> (Inr invalid_json, d)
            | Loaded payload \<Rightarrow> process_payload L now payload d)"
proof -
  from assms obtain sec where sec: "secret = Some sec" "sec \<noteq> []"
    and sg: "header req \<noteq> []" "header req = hexdigest (hmac_sha256 L sec (body req))"
    by (auto simp: authentic_def split: option.splits)
  have "is_ascii (header req)" using sg(2) by (simp add: is_ascii_hexdigest)
  with sg have "valid_signature L (body req) (header req) sec = Inr True"
    by (simp add: valid_signature_def compare_digest_def is_ascii_hexdigest)
  with sec show ?thesis
    by (simp add: ingest_avito_def header_def Let_def)
qed

lemma ingest_avito_gate:
  assumes "\<not> authentic L secret req" "is_ascii (header req)"
  shows "ingest_avito L secret req now d = (Inr invalid_signature, d)"
proof (cases secret)
  case None
  then show ?thesis by (simp add: ingest_avito_def)
next
  case (Some sec)
  show ?thesis
  proof (cases "sec = []")
    case True
    with Some show ?thesis by (simp add: ingest_avito_def)
  next
    case False
    with Some assms(1) have "header req = [] \<or> header req \<noteq> hexdigest (hmac_sha256 L sec (body req))"
      by (simp add: authentic_def)
    with assms(2) have "valid_signature L (body req) (header req) sec = Inr False"
      by (auto simp: valid_signature_def compare_digest_def is_ascii_hexdigest)
    with Some False show ?thesis
      by (simp add: ingest_avito_def header_def Let_def)
  qed
qed

lemma process_payload_JObj:
  "process_payload L now (JObj p) d =
     (case iterate (batch_items p) of
        Inl f \<Rightarrow> (Inl f, d)
      | Inr xs \<Rightarrow>
          (case ingest_items L now (batch_source p) (batch_target p) (batch_fetched_at p now) xs
                  (d, zero_counts) of
             (Some f, st) \<Rightarrow> (Inl f, d)
           | (None, (d', c)) \<Rightarrow> (Inr (accepted c), d')))"
  by (simp add: process_payload_def atomic_def batch_items_def batch_source_def
      batch_target_def batch_fetched_at_def Let_def split: sum.splits prod.splits option.splits)

lemma accepted_inject: "accepted c = accepted c' \<longleftrightarrow> c = c'"
  by (cases c; cases c') (auto simp: accepted_def)


lemma ingest_avito_committed:
  assumes "authentic L secret req" "json_loads L (body req) = Loaded (JObj p)"
    "iterate (batch_items p) = Inr xs"
    "ingest_avito L secret req now d = (Inr (accepted c), d')"
  shows "ingest_items L now (batch_source p) (batch_target p) (batch_fetched_at p now) xs
           (d, zero_counts) = (None, (d', c))"
proof -
  obtain fo dw cw where r: "ingest_items L now (batch_source p) (batch_target p)
      (batch_fetched_at p now) xs (d, zero_counts) = (fo, (dw, cw))"
    by (metis surj_pair)
  from assms r show ?thesis
    by (cases fo) (simp_all add: ingest_avito_authentic process_payload_JObj accepted_inject)
qed

lemma map_ad_id_idents: "map ad_id (ads d) = map fst (idents d)"
  by (simp add: idents_def comp_def)

lemma ad_pk_unique_idents: "idents d' = idents d \<Longrightarrow> ad_pk_unique d' = ad_pk_unique d"
  by (simp add: ad_pk_unique_def map_ad_id_idents)

lemma assign_Cons: "assign (x # xs) a = assign xs (set_field x a)"
  by (simp add: assign_def)

lemma ad_defaults_ok_last_seen [simp]:
  "ad_defaults_ok d (a\<lparr>last_seen_at := now\<rparr>) = ad_defaults_ok d a"
  by (simp add: ad_defaults_ok_def)

lemma ad_defaults_ok_targets:
  "parse_targets d' = parse_targets d \<Longrightarrow> ad_defaults_ok d' a = ad_defaults_ok d a"
  by (simp add: ad_defaults_ok_def)

lemma ad_defaults_ok_base:
  assumes "prep_all L (defaults_of kvs tgt) = Inr cs"
  shows "ad_defaults_ok d (assign cs a) = ad_defaults_ok d (assign cs (blank_ad 0 []))"
  using assms
proof (cases rule: defaults_explicit)
  case 1
  then show ?thesis by (simp add: assign_defaults ad_defaults_ok_def)
qed

lemma update_or_create_effect:
  assumes u: "update_or_create L now src ext (defaults_of kvs tgt) d = Inr ((a, c), d')"
    and pk: "ad_pk_unique d"
  obtains s e cs where
    "prep L Source src = Inr s" "prep L ExternalId ext = Inr e"
    "prep_all L (defaults_of kvs tgt) = Inr cs"
    "ad_defaults_ok d (assign cs (blank_ad 0 []))"
    "points d' = points d" "parse_targets d' = parse_targets d"
    "key_ids s e d' = [ad_id a]" "a \<in> set (ads d')" "ad_pk_unique d'"
    "if c then key_ids s e d = [] \<and> idents d' = idents d @ [(ad_id a, s, e)]
     else key_ids s e d = [ad_id a] \<and> idents d' = idents d"
  using u
proof (cases rule: update_or_create_Inr)
  case (inserted s e cs)
  have cols: "Source \<notin> fst ` set cs" "ExternalId \<notin> fst ` set cs"
    using prep_all_columns [OF inserted(3)] defaults_of_columns by simp_all
  have src_a: "source a = s"
    unfolding inserted(6) assign_Cons using cols by (simp add: source_assign)
  have ext_a: "external_id a = e"
    unfolding inserted(6) assign_Cons using cols by (simp add: external_id_assign)
  have id_a: "ad_id a = fresh_id (map ad_id (ads d))"
    unfolding inserted(6) by (simp add: blank_ad_def)
  have ok: "ad_defaults_ok d (assign cs (blank_ad 0 []))"
  proof -
    from inserted(7) have "ad_defaults_ok d a" by (simp add: ad_row_ok_def)
    then show ?thesis
      unfolding inserted(6) assign_Cons using ad_defaults_ok_base [OF inserted(3)] by blast
  qed
  have none: "key_ids s e d = []"
    using inserted(4) by (simp add: key_ids_lookup_ad)
  have ids: "idents d' = idents d @ [(ad_id a, s, e)]"
    using inserted(8) src_a ext_a by (simp add: idents_def)
  have one: "key_ids s e d' = [ad_id a]"
    using none ids by (simp add: key_ids_def)
  have pk': "ad_pk_unique d'"
    using pk fresh_id_notin [of "map ad_id (ads d)"] id_a inserted(8)
    by (simp add: ad_pk_unique_def)
  have pts: "points d' = points d" "parse_targets d' = parse_targets d"
    using inserted(8) by simp_all
  have mem: "a \<in> set (ads d')"
    using inserted(8) by simp
  have cond: "if c then key_ids s e d = [] \<and> idents d' = idents d @ [(ad_id a, s, e)]
     else key_ids s e d = [ad_id a] \<and> idents d' = idents d"
    using inserted(5) none ids by simp
  show thesis
    by (rule that [OF inserted(1,2,3) ok pts one mem pk' cond])
next
  case (saved s e cs a0)
  have cols: "Source \<notin> fst ` set cs" "ExternalId \<notin> fst ` set cs"
    using prep_all_columns [OF saved(3)] defaults_of_columns by simp_all
  have a0: "a0 \<in> set (ads d)" "source a0 = s" "external_id a0 = e"
  proof -
    have "a0 \<in> set (lookup_ad s e d)" using saved(4) by simp
    then show "a0 \<in> set (ads d)" "source a0 = s" "external_id a0 = e"
      by (simp_all add: lookup_ad_def)
  qed
  have same: "ad_id a = ad_id a0" "source a = s" "external_id a = e"
    unfolding saved(6) using cols a0 by (simp_all add: source_assign external_id_assign)
  have only: "r = a0" if "r \<in> set (ads d)" "ad_id r = ad_id a0" for r
  proof -
    from pk have "inj_on ad_id (set (ads d))"
      by (simp add: ad_pk_unique_def distinct_map)
    then show ?thesis using that(2) that(1) a0(1) by (rule inj_onD)
  qed
  have keep: "(ad_id (if ad_id r = ad_id a0 then a else r),
               source (if ad_id r = ad_id a0 then a else r),
               external_id (if ad_id r = ad_id a0 then a else r))
              = (ad_id r, source r, external_id r)" if "r \<in> set (ads d)" for r
  proof (cases "ad_id r = ad_id a0")
    case True
    with that have r: "r = a0" by (rule only)
    show ?thesis unfolding r using same a0 by simp
  next
    case False
    then show ?thesis by simp
  qed
  have ids: "idents d' = idents d"
    unfolding idents_def saved(8) using keep by (simp add: comp_def)
  have ok: "ad_defaults_ok d (assign cs (blank_ad 0 []))"
  proof -
    from saved(7) have "ad_defaults_ok d (assign cs a0)" unfolding saved(6) by simp
    then show ?thesis using ad_defaults_ok_base [OF saved(3)] by blast
  qed
  have one: "key_ids s e d = [ad_id a]"
    using saved(4) same by (simp add: key_ids_lookup_ad)
  have one': "key_ids s e d' = [ad_id a]"
    using one ids by (simp add: key_ids_def)
  have mem: "a \<in> set (ads d')"
  proof -
    have "(\<lambda>r. if ad_id r = ad_id a0 then a else r) a0 \<in>
            (\<lambda>r. if ad_id r = ad_id a0 then a else r) ` set (ads d)"
      using a0(1) by (rule imageI)
    then show ?thesis unfolding saved(8) by simp
  qed
  have pk': "ad_pk_unique d'"
    using pk ad_pk_unique_idents [OF ids] by simp
  have pts: "points d' = points d" "parse_targets d' = parse_targets d"
    using saved(8) by simp_all
  have cond: "if c then key_ids s e d = [] \<and> idents d' = idents d @ [(ad_id a, s, e)]
     else key_ids s e d = [ad_id a] \<and> idents d' = idents d"
    using saved(5) one ids by simp
  show thesis
    by (rule that [OF saved(1,2,3) ok pts one' mem pk' cond])
qed

lemma get_or_create_effect:
  assumes "get_or_create L a pv cv tv d = Inr ((r, c), d')"
  obtains p cu t where
    "prep L PointPrice pv = Inr p" "prep L PointCurrency cv = Inr cu"
    "prep L PointCollectedAt tv = Inr t"
    "ads d' = ads d" "parse_targets d' = parse_targets d"
    "lookup_point (ad_id a) p cu t d' = [r]"
    "points d' = points d \<or>
       (points d' = points d @ [r] \<and> \<not> list_ex (same_observation r) (points d))"
  using assms
proof (cases rule: get_or_create_Inr)
  case (inserted p cu t)
  have "lookup_point (ad_id a) p cu t d' = [r]"
    using inserted(4) unfolding lookup_point_def inserted(8) inserted(6) by simp
  then show thesis
    using that [OF inserted(1,2,3)] inserted(7,8) by (simp add: point_row_ok_def)
next
  case (found p cu t)
  then show thesis using that [OF found(1,2,3)] by simp
qed

lemma hexdigest_eq_Nil: "hexdigest bs = [] \<longleftrightarrow> bs = []"
  by (cases bs) (simp_all add: hexdigest_def)

lemma authentic_signed: "authentic example_lib (Some ''s3cret'') (signed raw)"
  by (simp add: authentic_def header_def signed_def example_lib_def hexdigest_eq_Nil)

lemma body_signed: "body (signed raw) = raw"
  by (simp add: signed_def)

lemma ingest_signed:
  "json_loads example_lib raw = Loaded v \<Longrightarrow>
     ingest_avito example_lib (Some ''s3cret'') (signed raw) now d = process_payload example_lib now v d"
  by (simp add: ingest_avito_authentic [OF authentic_signed] body_signed)

lemma loads_chair: "json_loads example_lib body_chair = Loaded (JObj payload_chair)"
  by (simp add: example_lib_def example_loads_def)



lemma loads_partial: "json_loads example_lib body_partial = Loaded (JObj payload_partial)"
  by (simp add: example_lib_def example_loads_def body_list_def body_chair_def body_partial_def)

lemma loads_mixed: "json_loads example_lib body_mixed = Loaded (JObj payload_mixed)"
  by (simp add: example_lib_def example_loads_def body_list_def body_chair_def body_partial_def
      body_mixed_def)

lemma loads_null_currency:
  "json_loads example_lib body_null_currency = Loaded (JObj payload_null_currency)"
  by (simp add: example_lib_def example_loads_def body_list_def body_chair_def body_partial_def
      body_mixed_def body_null_currency_def)

lemma loads_chair_usd: "json_loads example_lib body_chair_usd = Loaded (JObj payload_chair_usd)"
  by (simp add: example_lib_def example_loads_def body_list_def body_chair_def body_partial_def
      body_mixed_def body_null_currency_def body_chair_usd_def)

lemma prep_JNull: "prep L col JNull = Inr JNull"
  by (simp add: prep_def)

lemma dict_get_absent: "map_of kvs k = None \<Longrightarrow> dict_get kvs k dflt = dflt"
  by (simp add: dict_get_def)

lemma dict_get_present: "map_of kvs k = Some v \<Longrightarrow> dict_get kvs k dflt = v"
  by (simp add: dict_get_def)

lemma upserted_fields:
  assumes "update_or_create L now src ext (defaults_of kvs tgt) d = Inr ((a, c), d')"
  shows "prep L Title (dict_get kvs ''title'' (JStr [])) = Inr (title a) \<and>
         prep L Url (dict_get kvs ''url'' (JStr [])) = Inr (url a) \<and>
         prep L SellerName (dict_get kvs ''seller_name'' (JStr [])) = Inr (seller_name a) \<and>
         prep L SellerId (dict_get kvs ''seller_id'' (JStr [])) = Inr (seller_id a) \<and>
         prep L Location (dict_get kvs ''location'' (JStr [])) = Inr (location a) \<and>
         prep L Currency (dict_get kvs ''currency'' (JStr ''RUB'')) = Inr (currency a) \<and>
         prep L PriceCurrent (dict_get kvs ''price'' JNull) = Inr (price_current a) \<and>
         prep L PostedAt (dict_get kvs ''posted_at'' JNull) = Inr (posted_at a) \<and>
         prep L IsActive (dict_get kvs ''is_active'' (JBool True)) = Inr (is_active a) \<and>
         prep L Target tgt = Inr (target_id a) \<and>
         last_seen_at a = now \<and> ad_defaults_ok d a"
  using assms
proof (cases rule: update_or_create_Inr)
  case (inserted s e cs)
  from inserted(3) show ?thesis
  proof (cases rule: defaults_explicit)
    case (1 c1 c2 c3 c4 c5 c6 c7 c8 c9 c10)
    have "a = (blank_ad (fresh_id (map ad_id (ads d))) now)
               \<lparr>source := s, external_id := e, title := c1, url := c2, seller_name := c3,
                seller_id := c4, location := c5, currency := c6, price_current := c7,
                posted_at := c8, is_active := c9, target_id := c10\<rparr>"
      unfolding inserted(6) 1(1) assign_Cons by (simp add: assign_def)
    moreover have "ad_defaults_ok d a" using inserted(7) by (simp add: ad_row_ok_def)
    ultimately show ?thesis using 1 by (simp add: blank_ad_def)
  qed
next
  case (saved s e cs a0)
  from saved(3) show ?thesis
  proof (cases rule: defaults_explicit)
    case (1 c1 c2 c3 c4 c5 c6 c7 c8 c9 c10)
    have "a = a0\<lparr>title := c1, url := c2, seller_name := c3,
                seller_id := c4, location := c5, currency := c6, price_current := c7,
                posted_at := c8, is_active := c9, target_id := c10, last_seen_at := now\<rparr>"
      unfolding saved(6) 1(1) by (simp add: assign_defaults)
    then show ?thesis using 1 saved(7) by simp
  qed
qed

section \<open>The claims\<close>

text \<open>
  Claim C6. An item whose \<^verbatim>\<open>external_id\<close> is absent or empty (or any other value Python
  takes for false) is skipped: the step leaves the database and the three counters as they
  are and raises nothing, and a batch with the item anywhere in it runs exactly as the
  batch without it.
\<close>

theorem skip_on_missing_identity:
  assumes "\<not> truthy (dict_get kvs ''external_id'' JNull)"
  shows "ingest_item L now src tgt f (JObj kvs) (d, c) = Inr (d, c) \<and>
         ingest_items L now src tgt f (xs @ JObj kvs # ys) st =
           ingest_items L now src tgt f (xs @ ys) st"
proof
  show "ingest_item L now src tgt f (JObj kvs) (d, c) = Inr (d, c)"
    using assms by (rule ingest_item_skip)
next
  have step: "ingest_items L now src tgt f (JObj kvs # ys) st' = ingest_items L now src tgt f ys st'"
    for st'
    using ingest_item_skip [OF assms] by simp
  show "ingest_items L now src tgt f (xs @ JObj kvs # ys) st =
           ingest_items L now src tgt f (xs @ ys) st"
    unfolding ingest_items_append by (simp only: step)
qed

text \<open>
  An item with a title and no \<^verbatim>\<open>external_id\<close>, before the chair.
\<close>

theorem skip_on_missing_identity_witness:
  "\<not> truthy (dict_get [(''title'', JStr ''Lamp'')] ''external_id'' JNull) \<and>
   ingest_item example_lib ''2024-01-01T00:09:00'' (JStr ''avito'') JNull
     (JStr ''2024-01-01T00:00:00Z'') (JObj [(''title'', JStr ''Lamp'')]) (db1, zero_counts)
     = Inr (db1, zero_counts) \<and>
   ingest_items example_lib ''2024-01-01T00:09:00'' (JStr ''avito'') JNull
     (JStr ''2024-01-01T00:00:00Z'') ([] @ JObj [(''title'', JStr ''Lamp'')] # [JObj item_chair])
     (db1, zero_counts)
     = ingest_items example_lib ''2024-01-01T00:09:00'' (JStr ''avito'') JNull
     (JStr ''2024-01-01T00:00:00Z'') ([] @ [JObj item_chair]) (db1, zero_counts)"
proof -
  have h: "\<not> truthy (dict_get [(''title'', JStr ''Lamp'')] ''external_id'' JNull)"
    by (simp add: dict_get_def)
  show ?thesis
    using h skip_on_missing_identity [OF h, of example_lib "''2024-01-01T00:09:00''"
        "JStr ''avito''" JNull "JStr ''2024-01-01T00:00:00Z''" db1 zero_counts "[]"
        "[JObj item_chair]" "(db1, zero_counts)"]
    by simp
qed

text \<open>
  Claim C7. For a committed batch the reported \<^verbatim>\<open>price_points\<close> is the number of
  processed items with a price: it does not depend on the database, so an item whose
  price point is already stored counts as well.
\<close>

theorem price_points_counts_attempts:
  assumes "authentic L secret req" "json_loads L (body req) = Loaded (JObj p)"
    "iterate (batch_items p) = Inr xs"
    "ingest_avito L secret req now d = (Inr (accepted c), d')"
  shows "price_points c = length (filter (\<lambda>item. processed item \<and> priced item) xs)"
  using ingest_items_counts [OF ingest_avito_committed [OF assms]]
  by (simp add: zero_counts_def)

text \<open>
  The chair posted a second time: \<^verbatim>\<open>price_points\<close> is 1 and no row is added.
\<close>

theorem price_points_counts_attempts_witness:
  "authentic example_lib (Some ''s3cret'') (signed body_chair) \<and>
   json_loads example_lib (body (signed body_chair)) = Loaded (JObj payload_chair) \<and>
   iterate (batch_items payload_chair) = Inr [JObj item_chair] \<and>
   ingest_avito example_lib (Some ''s3cret'') (signed body_chair) ''2024-01-01T00:09:00'' db1 =
     (Inr (accepted \<lparr>created = 0, updated = 1, price_points = 1\<rparr>),
      db1\<lparr>ads := [ad_chair ''2024-01-01T00:09:00'']\<rparr>) \<and>
   points (db1\<lparr>ads := [ad_chair ''2024-01-01T00:09:00'']\<rparr>) = points db1 \<and>
   price_points \<lparr>created = 0, updated = 1, price_points = 1\<rparr> =
     length (filter (\<lambda>item. processed item \<and> priced item) [JObj item_chair])"
proof -
  have a: "authentic example_lib (Some ''s3cret'') (signed body_chair)"
    by (rule authentic_signed)
  have l: "json_loads example_lib (body (signed body_chair)) = Loaded (JObj payload_chair)"
    by (simp add: body_signed loads_chair)
  have i: "iterate (batch_items payload_chair) = Inr [JObj item_chair]"
    by (simp add: batch_items_def payload_chair_def dict_get_def)
  have e: "process_payload example_lib ''2024-01-01T00:09:00'' (JObj payload_chair) db1 =
     (Inr (accepted \<lparr>created = 0, updated = 1, price_points = 1\<rparr>),
      db1\<lparr>ads := [ad_chair ''2024-01-01T00:09:00'']\<rparr>)"
    by code_simp
  have r: "ingest_avito example_lib (Some ''s3cret'') (signed body_chair) ''2024-01-01T00:09:00'' db1 =
     (Inr (accepted \<lparr>created = 0, updated = 1, price_points = 1\<rparr>),
      db1\<lparr>ads := [ad_chair ''2024-01-01T00:09:00'']\<rparr>)"
    using ingest_signed [OF loads_chair] e by simp
  show ?thesis
    using a l i r price_points_counts_attempts [OF a l i r] by simp
qed

text \<open>
  Claim C2, at the failing input. A signature header with a character outside ASCII
  (here the byte E9) makes \<^verbatim>\<open>hmac.compare_digest\<close> raise \<^verbatim>\<open>TypeError\<close>: the view does not
  answer 401, it raises, for every body; the database is unchanged and the body is not
  parsed.
\<close>

theorem non_ascii_signature_raises:
  "ingest_avito L (Some ''s3cret'') \<lparr>x_signature = Some [CHR 0xE9], body = raw\<rparr> now d
     = (Inl TypeError, d)"
  by (simp add: ingest_avito_def valid_signature_def compare_digest_def is_ascii_def)

text \<open>
  Claim C3. For a correctly signed batch whose items can be iterated: when the loop ends
  without an exception the response is 202 with the loop's counters and the database is
  the one the loop has reached; when an item raises, the exception leaves the view, no
  response and no counters are returned, and the database is the one before the request,
  whatever the items before had written. An item without an \<^verbatim>\<open>external_id\<close> raises nothing.
\<close>

theorem batch_atomicity:
  assumes "authentic L secret req" "json_loads L (body req) = Loaded (JObj p)"
    "iterate (batch_items p) = Inr xs"
  shows "(case ingest_items L now (batch_source p) (batch_target p) (batch_fetched_at p now) xs
               (d, zero_counts) of
            (None, (d', c)) \<Rightarrow> ingest_avito L secret req now d = (Inr (accepted c), d')
          | (Some f, st) \<Rightarrow> ingest_avito L secret req now d = (Inl f, d)) \<and>
         (\<forall>kvs st. \<not> processed (JObj kvs) \<longrightarrow>
            ingest_item L now (batch_source p) (batch_target p) (batch_fetched_at p now)
              (JObj kvs) st = Inr st)"
proof
  show "case ingest_items L now (batch_source p) (batch_target p) (batch_fetched_at p now) xs
               (d, zero_counts) of
            (None, (d', c)) \<Rightarrow> ingest_avito L secret req now d = (Inr (accepted c), d')
          | (Some f, st) \<Rightarrow> ingest_avito L secret req now d = (Inl f, d)"
    using assms
    by (simp add: ingest_avito_authentic process_payload_JObj split: prod.splits option.splits)
next
  show "\<forall>kvs st. \<not> processed (JObj kvs) \<longrightarrow>
            ingest_item L now (batch_source p) (batch_target p) (batch_fetched_at p now)
              (JObj kvs) st = Inr st"
    by (simp add: processed_def item_external_id_def ingest_item_skip)
qed

text \<open>
  Two new ads, the second with a null title: the first is inserted inside the
  transaction, the second violates \<^verbatim>\<open>NOT NULL\<close>, and the request leaves the database as
  it was.
\<close>

theorem batch_atomicity_witness:
  "authentic example_lib (Some ''s3cret'') (signed body_partial) \<and>
   json_loads example_lib (body (signed body_partial)) = Loaded (JObj payload_partial) \<and>
   iterate (batch_items payload_partial) =
     Inr [JObj [(''external_id'', JStr ''1''), (''title'', JStr ''Desk'')],
          JObj [(''external_id'', JStr ''2''), (''title'', JNull)]] \<and>
   ingest_items example_lib ''2024-01-01T00:09:00'' (batch_source payload_partial)
     (batch_target payload_partial) (batch_fetched_at payload_partial ''2024-01-01T00:09:00'')
     [JObj [(''external_id'', JStr ''1''), (''title'', JStr ''Desk'')],
      JObj [(''external_id'', JStr ''2''), (''title'', JNull)]] (db1, zero_counts)
     = (Some IntegrityError, (partial_state, \<lparr>created = 1, updated = 0, price_points = 0\<rparr>)) \<and>
   partial_state \<noteq> db1 \<and>
   ingest_avito example_lib (Some ''s3cret'') (signed body_partial) ''2024-01-01T00:09:00'' db1
     = (Inl IntegrityError, db1)"
proof -
  have a: "authentic example_lib (Some ''s3cret'') (signed body_partial)"
    by (rule authentic_signed)
  have l: "json_loads example_lib (body (signed body_partial)) = Loaded (JObj payload_partial)"
    by (simp add: body_signed loads_partial)
  have i: "iterate (batch_items payload_partial) =
     Inr [JObj [(''external_id'', JStr ''1''), (''title'', JStr ''Desk'')],
          JObj [(''external_id'', JStr ''2''), (''title'', JNull)]]"
    by (simp add: batch_items_def payload_partial_def dict_get_def)
  have e: "ingest_items example_lib ''2024-01-01T00:09:00'' (batch_source payload_partial)
     (batch_target payload_partial) (batch_fetched_at payload_partial ''2024-01-01T00:09:00'')
     [JObj [(''external_id'', JStr ''1''), (''title'', JStr ''Desk'')],
      JObj [(''external_id'', JStr ''2''), (''title'', JNull)]] (db1, zero_counts)
     = (Some IntegrityError, (partial_state, \<lparr>created = 1, updated = 0, price_points = 0\<rparr>))"
    by code_simp
  have n: "partial_state \<noteq> db1"
    by code_simp
  show ?thesis
    using a l i e n
      batch_atomicity [OF a l i, of "''2024-01-01T00:09:00''" db1, THEN conjunct1]
    by simp
qed




text \<open>
  Claim C8. When the lookup by source and external id finds one row \<open>a0\<close>, a successful
  \<^verbatim>\<open>update_or_create\<close> returns \<open>a0\<close> with exactly title, url, seller name, seller id,
  location, currency, current price, posting date, activity flag and target overwritten by
  the incoming values (the target by the batch's \<^verbatim>\<open>target_id\<close>, whatever target the row had)
  and \<^verbatim>\<open>last_seen_at\<close> set to now; primary key, source, external id and \<^verbatim>\<open>created_at\<close>
  are those of \<open>a0\<close>, the row is not reported as created, and the table changes in the
  rows with that primary key only.
\<close>

theorem reconcile_overwrite_and_frame:
  assumes "prep L Source src = Inr s" "prep L ExternalId ext = Inr e"
    "lookup_ad s e d = [a0]"
    "update_or_create L now src ext (defaults_of kvs tgt) d = Inr ((a, is_created), d')"
  shows "\<exists>c1 c2 c3 c4 c5 c6 c7 c8 c9 c10.
           prep L Title (dict_get kvs ''title'' (JStr [])) = Inr c1 \<and>
           prep L Url (dict_get kvs ''url'' (JStr [])) = Inr c2 \<and>
           prep L SellerName (dict_get kvs ''seller_name'' (JStr [])) = Inr c3 \<and>
           prep L SellerId (dict_get kvs ''seller_id'' (JStr [])) = Inr c4 \<and>
           prep L Location (dict_get kvs ''location'' (JStr [])) = Inr c5 \<and>
           prep L Currency (dict_get kvs ''currency'' (JStr ''RUB'')) = Inr c6 \<and>
           prep L PriceCurrent (dict_get kvs ''price'' JNull) = Inr c7 \<and>
           prep L PostedAt (dict_get kvs ''posted_at'' JNull) = Inr c8 \<and>
           prep L IsActive (dict_get kvs ''is_active'' (JBool True)) = Inr c9 \<and>
           prep L Target tgt = Inr c10 \<and>
           a = a0\<lparr>title := c1, url := c2, seller_name := c3, seller_id := c4, location := c5,
                   currency := c6, price_current := c7, posted_at := c8, is_active := c9,
                   target_id := c10, last_seen_at := now\<rparr> \<and>
           \<not> is_created \<and>
           d' = d\<lparr>ads := map (\<lambda>r. if ad_id r = ad_id a0 then a else r) (ads d)\<rparr>"
  using assms(4)
proof (cases rule: update_or_create_Inr)
  case (inserted s' e' cs)
  with assms(1,2,3) show ?thesis by simp
next
  case (saved s' e' cs a0')
  with assms(1,2,3) have same: "a0' = a0" by simp
  from saved(3) show ?thesis
  proof (cases rule: defaults_explicit)
    case (1 c1 c2 c3 c4 c5 c6 c7 c8 c9 c10)
    have "a = a0\<lparr>title := c1, url := c2, seller_name := c3, seller_id := c4, location := c5,
                   currency := c6, price_current := c7, posted_at := c8, is_active := c9,
                   target_id := c10, last_seen_at := now\<rparr>"
      unfolding saved(6) 1(1) same by (simp add: assign_defaults)
    with 1 saved(5) saved(8) same show ?thesis by blast
  qed
qed

text \<open>
  The chair of the specification's example over the older row: every field of the item
  replaces the old one, absent keys by their defaults, the target 8 by 7.
\<close>

theorem reconcile_overwrite_and_frame_witness:
  "prep example_lib Source (JStr ''avito'') = Inr (JStr ''avito'') \<and>
   prep example_lib ExternalId (JStr ''123'') = Inr (JStr ''123'') \<and>
   lookup_ad (JStr ''avito'') (JStr ''123'') db_old = [ad_old] \<and>
   update_or_create example_lib ''2024-01-01T00:09:00'' (JStr ''avito'') (JStr ''123'')
     (defaults_of item_chair (JInt 7)) db_old
     = Inr ((ad_chair ''2024-01-01T00:09:00'', False),
            db_old\<lparr>ads := [ad_chair ''2024-01-01T00:09:00'']\<rparr>) \<and>
   (\<exists>c1 c2 c3 c4 c5 c6 c7 c8 c9 c10.
           prep example_lib Title (dict_get item_chair ''title'' (JStr [])) = Inr c1 \<and>
           prep example_lib Url (dict_get item_chair ''url'' (JStr [])) = Inr c2 \<and>
           prep example_lib SellerName (dict_get item_chair ''seller_name'' (JStr [])) = Inr c3 \<and>
           prep example_lib SellerId (dict_get item_chair ''seller_id'' (JStr [])) = Inr c4 \<and>
           prep example_lib Location (dict_get item_chair ''location'' (JStr [])) = Inr c5 \<and>
           prep example_lib Currency (dict_get item_chair ''currency'' (JStr ''RUB'')) = Inr c6 \<and>
           prep example_lib PriceCurrent (dict_get item_chair ''price'' JNull) = Inr c7 \<and>
           prep example_lib PostedAt (dict_get item_chair ''posted_at'' JNull) = Inr c8 \<and>
           prep example_lib IsActive (dict_get item_chair ''is_active'' (JBool True)) = Inr c9 \<and>
           prep example_lib Target (JInt 7) = Inr c10 \<and>
           ad_chair ''2024-01-01T00:09:00'' =
             ad_old\<lparr>title := c1, url := c2, seller_name := c3, seller_id := c4, location := c5,
                   currency := c6, price_current := c7, posted_at := c8, is_active := c9,
                   target_id := c10, last_seen_at := ''2024-01-01T00:09:00''\<rparr> \<and>
           \<not> False \<and>
           db_old\<lparr>ads := [ad_chair ''2024-01-01T00:09:00'']\<rparr> =
             db_old\<lparr>ads := map (\<lambda>r. if ad_id r = ad_id ad_old
                                      then ad_chair ''2024-01-01T00:09:00'' else r) (ads db_old)\<rparr>)"
proof -
  have s: "prep example_lib Source (JStr ''avito'') = Inr (JStr ''avito'')"
    by code_simp
  have e: "prep example_lib ExternalId (JStr ''123'') = Inr (JStr ''123'')"
    by code_simp
  have l: "lookup_ad (JStr ''avito'') (JStr ''123'') db_old = [ad_old]"
    by code_simp
  have u: "update_or_create example_lib ''2024-01-01T00:09:00'' (JStr ''avito'') (JStr ''123'')
     (defaults_of item_chair (JInt 7)) db_old
     = Inr ((ad_chair ''2024-01-01T00:09:00'', False),
            db_old\<lparr>ads := [ad_chair ''2024-01-01T00:09:00'']\<rparr>)"
    by code_simp
  show ?thesis
    using s e l u reconcile_overwrite_and_frame [OF s e l u] by blast
qed

text \<open>
  Claim C4, at the failing inputs. The lookup of \<^verbatim>\<open>get_or_create\<close> is by ad, price, currency
  and collection time, the unique constraint by ad, collection time and price: when a row
  with the same ad, time and price exists and none has the currency too, the insert is
  attempted and raises \<^verbatim>\<open>IntegrityError\<close>, which fails the batch.
\<close>

theorem price_point_currency_mismatch_raises:
  assumes "prep L PointPrice pv = Inr p" "prep L PointCurrency cv = Inr cu"
    "prep L PointCollectedAt tv = Inr t"
    "lookup_point (ad_id a) p cu t d = []"
    "list_ex (\<lambda>r. point_ad_id r = ad_id a \<and> collected_at r = t \<and> price r = p) (points d)"
  shows "get_or_create L a pv cv tv d = Inl IntegrityError"
proof -
  have "list_ex (same_observation \<lparr>point_id = fresh_id (map point_id (points d)),
           point_ad_id = ad_id a, price = p, point_currency = cu, collected_at = t\<rparr>) (points d)"
    using assms(5) by (auto simp: list_ex_iff same_observation_def)
  then show ?thesis
    using assms(1-4) by (simp add: get_or_create_def point_row_ok_def Let_def)
qed

text \<open>
  The chair at the same time and price, now in USD, after the specification's example:
  the request raises and the database is unchanged.
\<close>

theorem price_point_currency_mismatch_raises_witness:
  "prep example_lib PointPrice (JInt 500) = Inr (JInt 500) \<and>
   prep example_lib PointCurrency (JStr ''USD'') = Inr (JStr ''USD'') \<and>
   prep example_lib PointCollectedAt (JStr ''2024-01-01T00:00:00Z'')
     = Inr (JStr ''2024-01-01T00:00:00Z'') \<and>
   lookup_point (ad_id (ad_chair ''2024-01-01T00:09:00'')) (JInt 500) (JStr ''USD'')
     (JStr ''2024-01-01T00:00:00Z'') db1 = [] \<and>
   list_ex (\<lambda>r. point_ad_id r = ad_id (ad_chair ''2024-01-01T00:09:00'') \<and>
                 collected_at r = JStr ''2024-01-01T00:00:00Z'' \<and> price r = JInt 500) (points db1) \<and>
   get_or_create example_lib (ad_chair ''2024-01-01T00:09:00'') (JInt 500) (JStr ''USD'')
     (JStr ''2024-01-01T00:00:00Z'') db1 = Inl IntegrityError \<and>
   ingest_avito example_lib (Some ''s3cret'') (signed body_chair_usd) ''2024-01-01T00:09:00'' db1
     = (Inl IntegrityError, db1)"
proof -
  have p: "prep example_lib PointPrice (JInt 500) = Inr (JInt 500)"
    by code_simp
  have c: "prep example_lib PointCurrency (JStr ''USD'') = Inr (JStr ''USD'')"
    by code_simp
  have t: "prep example_lib PointCollectedAt (JStr ''2024-01-01T00:00:00Z'')
     = Inr (JStr ''2024-01-01T00:00:00Z'')"
    by code_simp
  have l: "lookup_point (ad_id (ad_chair ''2024-01-01T00:09:00'')) (JInt 500) (JStr ''USD'')
     (JStr ''2024-01-01T00:00:00Z'') db1 = []"
    by code_simp
  have x: "list_ex (\<lambda>r. point_ad_id r = ad_id (ad_chair ''2024-01-01T00:09:00'') \<and>
                 collected_at r = JStr ''2024-01-01T00:00:00Z'' \<and> price r = JInt 500) (points db1)"
    by code_simp
  have e: "process_payload example_lib ''2024-01-01T00:09:00'' (JObj payload_chair_usd) db1
     = (Inl IntegrityError, db1)"
    by code_simp
  show ?thesis
    using p c t l x price_point_currency_mismatch_raises [OF p c t l x]
      ingest_signed [OF loads_chair_usd] e
    by simp
qed

text \<open>
  Claim C9, amended. Whenever the upsert of an item succeeds: each absent key had its
  default; none of the keys of the \<^verbatim>\<open>NOT NULL\<close> columns (title, url, seller name, seller id,
  location, currency, is_active) was bound to null, since a null there is passed on as
  null and rejected by the database; a null price or posting date is stored as null.
\<close>

theorem defaults_only_for_absent_keys:
  assumes "update_or_create L now src ext (defaults_of kvs tgt) d = Inr ((a, c), d')"
  shows "(map_of kvs ''title'' = None \<longrightarrow> prep L Title (JStr []) = Inr (title a)) \<and>
         (map_of kvs ''url'' = None \<longrightarrow> prep L Url (JStr []) = Inr (url a)) \<and>
         (map_of kvs ''seller_name'' = None \<longrightarrow> prep L SellerName (JStr []) = Inr (seller_name a)) \<and>
         (map_of kvs ''seller_id'' = None \<longrightarrow> prep L SellerId (JStr []) = Inr (seller_id a)) \<and>
         (map_of kvs ''location'' = None \<longrightarrow> prep L Location (JStr []) = Inr (location a)) \<and>
         (map_of kvs ''currency'' = None \<longrightarrow> prep L Currency (JStr ''RUB'') = Inr (currency a)) \<and>
         (map_of kvs ''is_active'' = None \<longrightarrow> prep L IsActive (JBool True) = Inr (is_active a)) \<and>
         map_of kvs ''title'' \<noteq> Some JNull \<and> map_of kvs ''url'' \<noteq> Some JNull \<and>
         map_of kvs ''seller_name'' \<noteq> Some JNull \<and> map_of kvs ''seller_id'' \<noteq> Some JNull \<and>
         map_of kvs ''location'' \<noteq> Some JNull \<and> map_of kvs ''currency'' \<noteq> Some JNull \<and>
         map_of kvs ''is_active'' \<noteq> Some JNull \<and>
         (map_of kvs ''price'' = Some JNull \<longrightarrow> price_current a = JNull) \<and>
         (map_of kvs ''posted_at'' = Some JNull \<longrightarrow> posted_at a = JNull)"
proof -
  note f = upserted_fields [OF assms]
  have ok: "title a \<noteq> JNull" "url a \<noteq> JNull" "seller_name a \<noteq> JNull" "seller_id a \<noteq> JNull"
    "location a \<noteq> JNull" "currency a \<noteq> JNull" "is_active a \<noteq> JNull"
    using f by (simp_all add: ad_defaults_ok_def)
  have absent: "map_of kvs k = None \<Longrightarrow> prep L col (dict_get kvs k dflt) = Inr x \<Longrightarrow>
      prep L col dflt = Inr x" for k col dflt x
    by (simp add: dict_get_absent)
  have null: "map_of kvs k = Some JNull \<Longrightarrow> prep L col (dict_get kvs k dflt) = Inr x \<Longrightarrow>
      x = JNull" for k col dflt x
    by (simp add: dict_get_present prep_JNull)
  show ?thesis
    using f ok absent null by blast
qed

text \<open>
  The chair: no url and no is_active key, so the defaults are stored.
\<close>

theorem defaults_only_for_absent_keys_witness:
  "update_or_create example_lib ''2024-01-01T00:00:05'' (JStr ''avito'') (JStr ''123'')
     (defaults_of item_chair (JInt 7)) db0
     = Inr ((ad_chair ''2024-01-01T00:00:05'', True),
            db0\<lparr>ads := [ad_chair ''2024-01-01T00:00:05'']\<rparr>) \<and>
   map_of item_chair ''url'' = None \<and>
   prep example_lib Url (JStr []) = Inr (url (ad_chair ''2024-01-01T00:00:05'')) \<and>
   map_of item_chair ''is_active'' = None \<and>
   prep example_lib IsActive (JBool True) = Inr (is_active (ad_chair ''2024-01-01T00:00:05'')) \<and>
   map_of item_chair ''currency'' \<noteq> Some JNull"
proof -
  have u: "update_or_create example_lib ''2024-01-01T00:00:05'' (JStr ''avito'') (JStr ''123'')
     (defaults_of item_chair (JInt 7)) db0
     = Inr ((ad_chair ''2024-01-01T00:00:05'', True),
            db0\<lparr>ads := [ad_chair ''2024-01-01T00:00:05'']\<rparr>)"
    by code_simp
  have m: "map_of item_chair ''url'' = None" "map_of item_chair ''is_active'' = None"
    by (simp_all add: item_chair_def)
  show ?thesis
    using u m defaults_only_for_absent_keys [OF u] by simp
qed

text \<open>
  Claim C9 as stated fails: an item with \<^verbatim>\<open>"currency": null\<close> is not stored with a null
  currency; the insert raises \<^verbatim>\<open>IntegrityError\<close> and no ad is stored.
\<close>

theorem null_currency_counterexample:
  "map_of item_null_currency ''currency'' = Some JNull \<and>
   json_loads example_lib (body (signed body_null_currency)) = Loaded (JObj payload_null_currency) \<and>
   ingest_avito example_lib (Some ''s3cret'') (signed body_null_currency) ''2024-01-01T00:00:05'' db0
     = (Inl IntegrityError, db0) \<and>
   ads db0 = []"
proof -
  have e: "process_payload example_lib ''2024-01-01T00:00:05'' (JObj payload_null_currency) db0
     = (Inl IntegrityError, db0)"
    by code_simp
  have a: "ads db0 = []" by (simp add: db0_def)
  have m: "map_of item_null_currency ''currency'' = Some JNull"
    by (simp add: item_null_currency_def)
  show ?thesis
    using e a m ingest_signed [OF loads_null_currency]
    by (simp add: body_signed loads_null_currency)
qed

end
